theory Spec2Isabelle
  imports Main
begin

section \<open>The rich-text post editor: data model\<close>

text \<open>
  The editor component (TextEditor.tsx) is a rules layer over an external document
  engine. The document is a tree of nodes: the editor root, block elements carrying a
  \<open>type\<close>, an optional \<open>align\<close> and children, and text runs carrying a string and
  optional boolean marks (\<open>bold\<close>, \<open>italic\<close>, \<open>underline\<close>, \<open>code\<close>, stored under
  their names).
\<close>

type_synonym marks = "string \<rightharpoonup> bool"

record slate_text =
  run_text :: string
  text_marks :: marks

datatype 'n slate_element =
  SlateElement (etype: string) (align: "string option") (children: "'n list")

datatype node =
  Editor_node "node list"
| Element_node "node slate_element"
| Text_node slate_text

record point =
  path :: "nat list"
  offset :: nat

record range =
  anchor :: point
  focus :: point

text \<open>JavaScript truthiness of an optional boolean property: \<open>undefined\<close> and \<open>false\<close> are falsy.\<close>

definition truthy :: "bool option \<Rightarrow> bool" where
  "truthy v = (v = Some True)"

section \<open>Format registry\<close>

definition HOTKEYS :: "(string \<times> string) list" where
  "HOTKEYS =
    [(''mod+b'', ''bold''),
     (''mod+i'', ''italic''),
     (''mod+u'', ''underline''),
     (''mod+`'', ''code'')]"

definition LIST_TYPES :: "string list" where
  "LIST_TYPES = [''numbered-list'', ''bulleted-list'']"

definition TEXT_ALIGN_TYPES :: "string list" where
  "TEXT_ALIGN_TYPES = [''left'', ''center'', ''right'', ''justify'']"

definition formatDirectory :: "(string \<times> string) list" where
  "formatDirectory =
    [(''start'', ''start''),
     (''end'', ''end''),
     (''left'', ''left''),
     (''right'', ''right''),
     (''center'', ''center''),
     (''justify'', ''justify'')]"

section \<open>Presentation mapping\<close>

subsection \<open>Block renderer\<close>

text \<open>
  \<open>Element\<close> receives the block, the engine's DOM attributes and the rendered children.
  It first assigns \<open>element.align = "left"\<close> on the block it was handed when that
  attribute is undefined, then builds the container. The assignment is a write to the
  caller's object. The component is a module, hence strict-mode code, and the engine
  freezes the node objects it produces (every node it has created or changed, such as
  the container that \<open>toggleBlock\<close> wraps the selection in), whereas the literal
  \<open>initialValue\<close> is an ordinary object. A write to a frozen object throws \<open>TypeError\<close>.
  The props therefore also say whether the block object is frozen, and the model
  returns either the error or the rendered container next to the block as it is
  after the call.
\<close>

datatype error = TypeError

record ('a, 'c) RenderElementProps =
  element :: "node slate_element"
  element_frozen :: bool
  attributes :: 'a
  children_prop :: 'c

datatype tag = Blockquote | Ul | H1 | H2 | Li | Ol | P

record ('a, 'c) container =
  container_tag :: tag
  textAlign :: "string option"
  container_attributes :: 'a
  container_children :: 'c

definition Element ::
  "('a, 'c) RenderElementProps \<Rightarrow> error + (('a, 'c) container \<times> node slate_element)" where
  "Element props =
    (let element0 = element props;
         attributes = attributes props;
         children = children_prop props;
         assigned =
           (if align element0 = None
            then (if element_frozen props then Inl TypeError
                  else Inr (SlateElement (etype element0) (Some ''left'')
                              (slate_element.children element0)))
            else Inr element0)
     in case assigned of
          Inl e \<Rightarrow> Inl e
        | Inr element1 \<Rightarrow>
            (let style = align element1;
                 mk = (\<lambda>t. \<lparr>container_tag = t, textAlign = style,
                              container_attributes = attributes, container_children = children\<rparr>)
             in Inr (if etype element1 = ''block-quote'' then mk Blockquote
                     else if etype element1 = ''bulleted-list'' then mk Ul
                     else if etype element1 = ''heading-one'' then mk H1
                     else if etype element1 = ''heading-two'' then mk H2
                     else if etype element1 = ''list-item'' then mk Li
                     else if etype element1 = ''numbered-list'' then mk Ol
                     else mk P,
                     element1)))"

subsection \<open>Leaf renderer\<close>

record ('a, 'c) RenderLeafProps =
  leaf :: slate_text
  leaf_attributes :: 'a
  leaf_children :: 'c

datatype ('a, 'c) jsx =
  Children 'c
| Strong "('a, 'c) jsx"
| CodeBackground "('a, 'c) jsx"
| Code "('a, 'c) jsx"
| Em "('a, 'c) jsx"
| U "('a, 'c) jsx"
| Span 'a "('a, 'c) jsx"

definition Leaf :: "('a, 'c) RenderLeafProps \<Rightarrow> ('a, 'c) jsx" where
  "Leaf props =
    (let leaf = leaf props;
         attributes = leaf_attributes props;
         children = Children (leaf_children props);
         children = (if truthy (text_marks leaf ''bold'') then Strong children else children);
         children = (if truthy (text_marks leaf ''code'')
                     then CodeBackground (Code children) else children);
         children = (if truthy (text_marks leaf ''italic'') then Em children else children);
         children = (if truthy (text_marks leaf ''underline'') then U children else children)
     in Span attributes children)"

text \<open>The wrappers of a rendered run, read from the outermost inwards.\<close>

fun wrappers :: "('a, 'c) jsx \<Rightarrow> string list" where
  "wrappers (Children c) = []"
| "wrappers (Strong j) = ''strong'' # wrappers j"
| "wrappers (CodeBackground j) = ''CodeBackground'' # wrappers j"
| "wrappers (Code j) = ''code'' # wrappers j"
| "wrappers (Em j) = ''em'' # wrappers j"
| "wrappers (U j) = ''u'' # wrappers j"
| "wrappers (Span a j) = ''span'' # wrappers j"

section \<open>The document engine\<close>

text \<open>
  The document tree, the selection, and the primitive queries and mutations belong to
  the external engine; the component only calls them. The engine is therefore a
  parameter: a record of its primitives over an editor state \<open>'e\<close>.
  \<^item> \<open>selection\<close> reads \<open>editor.selection\<close> (\<open>None\<close> for \<open>null\<close>);
  \<^item> \<open>Editor_marks\<close> is \<open>Editor.marks\<close> (\<open>None\<close> for \<open>null\<close>);
  \<^item> \<open>Node_nodes\<close> lists the nodes the engine visits in a range, before any
    \<open>match\<close> is applied;
  \<^item> \<open>Transforms_unwrapNodes\<close> takes the \<open>match\<close> predicate and the \<open>split\<close> flag,
    \<open>Transforms_setNodes\<close> the new properties, \<open>Transforms_wrapNodes\<close> the wrapping
    block; all three act at the current selection.
\<close>

datatype newProperties = Props_align "string option" | Props_type string

record 'e slate =
  selection :: "'e \<Rightarrow> range option"
  Editor_marks :: "'e \<Rightarrow> marks option"
  Editor_addMark :: "'e \<Rightarrow> string \<Rightarrow> bool \<Rightarrow> 'e"
  Editor_removeMark :: "'e \<Rightarrow> string \<Rightarrow> 'e"
  Editor_unhangRange :: "'e \<Rightarrow> range \<Rightarrow> range"
  Node_nodes :: "'e \<Rightarrow> range \<Rightarrow> node list"
  Transforms_unwrapNodes :: "'e \<Rightarrow> (node \<Rightarrow> bool) \<Rightarrow> bool \<Rightarrow> 'e"
  Transforms_setNodes :: "'e \<Rightarrow> newProperties \<Rightarrow> 'e"
  Transforms_wrapNodes :: "'e \<Rightarrow> node slate_element \<Rightarrow> 'e"

definition Editor_isEditor :: "node \<Rightarrow> bool" where
  "Editor_isEditor n = (case n of Editor_node _ \<Rightarrow> True | _ \<Rightarrow> False)"

definition SlateElement_isElement :: "node \<Rightarrow> bool" where
  "SlateElement_isElement n = (case n of Element_node _ \<Rightarrow> True | _ \<Rightarrow> False)"

text \<open>
  The string read by \<open>n[key]\<close> on a node: a block has \<open>type\<close> and, when set, \<open>align\<close>;
  every other read (an absent key, \<open>children\<close>, a text run's fields) is not a format
  string and is \<open>None\<close> here.
\<close>

fun node_prop :: "node \<Rightarrow> string \<Rightarrow> string option" where
  "node_prop (Element_node el) key =
     (if key = ''type'' then Some (etype el)
      else if key = ''align'' then align el
      else None)"
| "node_prop (Editor_node cs) key = None"
| "node_prop (Text_node t) key = None"

text \<open>\<open>Editor.nodes\<close> with a \<open>match\<close>: the visited nodes of the range that satisfy it, in order.\<close>

definition Editor_nodes :: "'e slate \<Rightarrow> 'e \<Rightarrow> range \<Rightarrow> (node \<Rightarrow> bool) \<Rightarrow> node list" where
  "Editor_nodes eng editor at match = filter match (Node_nodes eng editor at)"

section \<open>Active-state queries\<close>

definition isBlockActive :: "'e slate \<Rightarrow> 'e \<Rightarrow> string \<Rightarrow> string \<Rightarrow> bool" where
  "isBlockActive eng editor format blockType =
    (case selection eng editor of
       None \<Rightarrow> False
     | Some sel \<Rightarrow>
         (case Editor_nodes eng editor (Editor_unhangRange eng editor sel)
                 (\<lambda>n. \<not> Editor_isEditor n \<and> SlateElement_isElement n
                       \<and> node_prop n blockType = Some format) of
            [] \<Rightarrow> False
          | match # _ \<Rightarrow> True))"

definition isMarkActive :: "'e slate \<Rightarrow> 'e \<Rightarrow> string \<Rightarrow> bool" where
  "isMarkActive eng editor format =
    (case Editor_marks eng editor of
       None \<Rightarrow> False
     | Some marks \<Rightarrow> marks format = Some True)"

section \<open>Toggle operations\<close>

definition toggleMark :: "'e slate \<Rightarrow> 'e \<Rightarrow> string \<Rightarrow> 'e" where
  "toggleMark eng editor format =
    (let isActive = isMarkActive eng editor format
     in if isActive then Editor_removeMark eng editor format
        else Editor_addMark eng editor format True)"

text \<open>The \<open>match\<close> closure that \<open>toggleBlock\<close> hands to \<open>Transforms.unwrapNodes\<close>.\<close>

definition unwrap_match :: "string \<Rightarrow> node \<Rightarrow> bool" where
  "unwrap_match format n =
    (\<not> Editor_isEditor n \<and> SlateElement_isElement n
     \<and> (case node_prop n ''type'' of None \<Rightarrow> False | Some t \<Rightarrow> t \<in> set LIST_TYPES)
     \<and> format \<notin> set TEXT_ALIGN_TYPES)"

definition toggleBlock :: "'e slate \<Rightarrow> 'e \<Rightarrow> string \<Rightarrow> 'e" where
  "toggleBlock eng editor format =
    (let isActive = isBlockActive eng editor format
                      (if format \<in> set TEXT_ALIGN_TYPES then ''align'' else ''type'');
         isList = (format \<in> set LIST_TYPES);
         editor = Transforms_unwrapNodes eng editor (unwrap_match format) True;
         newProperties =
           (if format \<in> set TEXT_ALIGN_TYPES
            then Props_align (if isActive then Some ''left'' else map_of formatDirectory format)
            else Props_type (if isActive then ''paragraph''
                             else if isList then ''list-item'' else format));
         editor = Transforms_setNodes eng editor newProperties
     in if \<not> isActive \<and> isList
        then Transforms_wrapNodes eng editor (SlateElement format None [])
        else editor)"

section \<open>Keyboard shortcuts\<close>

text \<open>
  The key handler walks the shortcut table in order and tests every entry against the
  event with the hotkey library's predicate, a parameter here. It returns the editor
  and whether \<open>event.preventDefault()\<close> was called. Every \<open>hotkey\<close> the loop visits is
  a key of the table, so the lookup always finds its mark.
\<close>

fun onKeyDown_loop ::
  "'e slate \<Rightarrow> (string \<Rightarrow> 'ev \<Rightarrow> bool) \<Rightarrow> 'ev \<Rightarrow> string list \<Rightarrow> 'e \<times> bool \<Rightarrow> 'e \<times> bool" where
  "onKeyDown_loop eng isHotkey event [] s = s"
| "onKeyDown_loop eng isHotkey event (hotkey # rest) (editor, prevented) =
     onKeyDown_loop eng isHotkey event rest
       (if isHotkey hotkey event
        then (case map_of HOTKEYS hotkey of
                Some mark \<Rightarrow> (toggleMark eng editor mark, True)
              | None \<Rightarrow> (editor, True))
        else (editor, prevented))"

definition onKeyDown :: "'e slate \<Rightarrow> (string \<Rightarrow> 'ev \<Rightarrow> bool) \<Rightarrow> 'e \<Rightarrow> 'ev \<Rightarrow> 'e \<times> bool" where
  "onKeyDown eng isHotkey editor event =
     onKeyDown_loop eng isHotkey event (map fst HOTKEYS) (editor, False)"

section \<open>What the component relies on from its collaborators\<close>

text \<open>
  The mark state of a format at the selection: absent, or present with its value.
\<close>

definition markState :: "'e slate \<Rightarrow> 'e \<Rightarrow> string \<Rightarrow> bool option" where
  "markState eng editor format =
    (case Editor_marks eng editor of None \<Rightarrow> None | Some marks \<Rightarrow> marks format)"

text \<open>
  The engine's mark primitives, as \<open>Editor.marks\<close> shows them: \<open>addMark\<close> stores the value
  under the key, \<open>removeMark\<close> deletes the key, and both leave an editor without a
  selection (marks \<open>null\<close>) as it is.
\<close>

definition marks_contract :: "'e slate \<Rightarrow> bool" where
  "marks_contract eng =
    ((\<forall>e k v. Editor_marks eng (Editor_addMark eng e k v)
               = map_option (\<lambda>m. m(k \<mapsto> v)) (Editor_marks eng e))
     \<and> (\<forall>e k. Editor_marks eng (Editor_removeMark eng e k)
               = map_option (\<lambda>m. m(k := None)) (Editor_marks eng e)))"

text \<open>\<open>unwrapNodes\<close> with a \<open>match\<close> that accepts no node changes nothing.\<close>

definition unwrap_contract :: "'e slate \<Rightarrow> bool" where
  "unwrap_contract eng =
    (\<forall>e m split. (\<forall>n. \<not> m n) \<longrightarrow> Transforms_unwrapNodes eng e m split = e)"

fun has_props :: "newProperties \<Rightarrow> node \<Rightarrow> bool" where
  "has_props (Props_align a) n = (\<not> Editor_isEditor n \<and> SlateElement_isElement n
                                   \<and> node_prop n ''align'' = a)"
| "has_props (Props_type t) n = (\<not> Editor_isEditor n \<and> SlateElement_isElement n
                                  \<and> node_prop n ''type'' = Some t)"

text \<open>
  \<open>setNodes\<close> applied a second time with the same properties changes nothing; with a
  selection it keeps the selection, and the unhung selection range then holds a block
  that carries the new properties.
\<close>

definition setNodes_contract :: "'e slate \<Rightarrow> bool" where
  "setNodes_contract eng =
    ((\<forall>e p. Transforms_setNodes eng (Transforms_setNodes eng e p) p
             = Transforms_setNodes eng e p)
     \<and> (\<forall>e p sel. selection eng e = Some sel \<longrightarrow>
           selection eng (Transforms_setNodes eng e p) = Some sel
           \<and> list_ex (has_props p)
               (Node_nodes eng (Transforms_setNodes eng e p)
                  (Editor_unhangRange eng (Transforms_setNodes eng e p) sel))))"

text \<open>The hotkey library: a key event carries one key, so it matches at most one entry.\<close>

definition hotkey_contract :: "(string \<Rightarrow> 'ev \<Rightarrow> bool) \<Rightarrow> bool" where
  "hotkey_contract isHotkey =
    (\<forall>event. \<forall>h1 \<in> set (map fst HOTKEYS). \<forall>h2 \<in> set (map fst HOTKEYS).
        isHotkey h1 event \<and> isHotkey h2 event \<longrightarrow> h1 = h2)"

section \<open>A reference engine\<close>

text \<open>
  A small engine that meets the contracts above: the document is one block holding one
  text run, nested in a chain of containers (outermost first); the selection, when
  there is one, lies in that run.
\<close>

record block_editor =
  be_selection :: "range option"
  be_marks :: marks
  be_containers :: "(string \<times> string option) list"
  be_type :: string
  be_align :: "string option"
  be_text :: string

fun nest :: "(string \<times> string option) list \<Rightarrow> node \<Rightarrow> node" where
  "nest [] b = b"
| "nest ((t, a) # cs) b = Element_node (SlateElement t a [nest cs b])"

fun container_nodes :: "(string \<times> string option) list \<Rightarrow> node \<Rightarrow> node list" where
  "container_nodes [] b = []"
| "container_nodes (c # cs) b = nest (c # cs) b # container_nodes cs b"

definition be_run :: "block_editor \<Rightarrow> node" where
  "be_run e = Text_node \<lparr>run_text = be_text e, text_marks = be_marks e\<rparr>"

definition be_block :: "block_editor \<Rightarrow> node" where
  "be_block e = Element_node (SlateElement (be_type e) (be_align e) [be_run e])"

definition be_nodes :: "block_editor \<Rightarrow> range \<Rightarrow> node list" where
  "be_nodes e at =
     Editor_node [nest (be_containers e) (be_block e)]
     # container_nodes (be_containers e) (be_block e) @ [be_block e, be_run e]"

text \<open>Unwrapping removes the lowest container that matches.\<close>

fun unwrap_lowest ::
  "(node \<Rightarrow> bool) \<Rightarrow> (string \<times> string option) list \<Rightarrow> node \<Rightarrow> (string \<times> string option) list" where
  "unwrap_lowest m [] b = []"
| "unwrap_lowest m (c # cs) b =
     (if list_ex m (container_nodes cs b) then c # unwrap_lowest m cs b
      else if m (nest (c # cs) b) then cs
      else c # cs)"

definition be_addMark :: "block_editor \<Rightarrow> string \<Rightarrow> bool \<Rightarrow> block_editor" where
  "be_addMark e k v =
     (if be_selection e = None then e else e\<lparr>be_marks := (be_marks e)(k \<mapsto> v)\<rparr>)"

definition be_removeMark :: "block_editor \<Rightarrow> string \<Rightarrow> block_editor" where
  "be_removeMark e k =
     (if be_selection e = None then e else e\<lparr>be_marks := (be_marks e)(k := None)\<rparr>)"

definition be_unwrapNodes :: "block_editor \<Rightarrow> (node \<Rightarrow> bool) \<Rightarrow> bool \<Rightarrow> block_editor" where
  "be_unwrapNodes e m split =
     (if be_selection e = None then e
      else e\<lparr>be_containers := unwrap_lowest m (be_containers e) (be_block e)\<rparr>)"

definition be_setNodes :: "block_editor \<Rightarrow> newProperties \<Rightarrow> block_editor" where
  "be_setNodes e p =
     (if be_selection e = None then e
      else (case p of Props_align a \<Rightarrow> e\<lparr>be_align := a\<rparr>
                    | Props_type t \<Rightarrow> e\<lparr>be_type := t\<rparr>))"

definition be_wrapNodes :: "block_editor \<Rightarrow> node slate_element \<Rightarrow> block_editor" where
  "be_wrapNodes e blk =
     (if be_selection e = None then e
      else e\<lparr>be_containers := be_containers e @ [(etype blk, align blk)]\<rparr>)"

definition block_engine :: "block_editor slate" where
  "block_engine =
    \<lparr>selection = be_selection,
     Editor_marks = (\<lambda>e. if be_selection e = None then None else Some (be_marks e)),
     Editor_addMark = be_addMark,
     Editor_removeMark = be_removeMark,
     Editor_unhangRange = (\<lambda>e r. r),
     Node_nodes = be_nodes,
     Transforms_unwrapNodes = be_unwrapNodes,
     Transforms_setNodes = be_setNodes,
     Transforms_wrapNodes = be_wrapNodes\<rparr>"

definition caret :: range where
  "caret = \<lparr>anchor = \<lparr>path = [0, 0], offset = 0\<rparr>, focus = \<lparr>path = [0, 0], offset = 0\<rparr>\<rparr>"

text \<open>
  The reference editor over the component's \<open>initialValue\<close> (one empty paragraph), with
  the caret in it, and variants of it used below.
\<close>

definition initial_editor :: block_editor where
  "initial_editor =
    \<lparr>be_selection = Some caret, be_marks = Map.empty, be_containers = [],
     be_type = ''paragraph'', be_align = None, be_text = []\<rparr>"

definition unselected :: block_editor where
  "unselected = initial_editor\<lparr>be_selection := None\<rparr>"

definition centered :: block_editor where
  "centered = initial_editor\<lparr>be_align := Some ''center''\<rparr>"

definition lefted :: block_editor where
  "lefted = initial_editor\<lparr>be_align := Some ''left''\<rparr>"

definition listed :: block_editor where
  "listed = initial_editor\<lparr>be_containers := [(''bulleted-list'', None)], be_type := ''list-item''\<rparr>"


definition bold_run :: block_editor where
  "bold_run = initial_editor\<lparr>be_marks := [''bold'' \<mapsto> True]\<rparr>"

definition bold_false_run :: block_editor where
  "bold_false_run = initial_editor\<lparr>be_marks := [''bold'' \<mapsto> False]\<rparr>"

text \<open>A key event of the reference hotkey predicate is the combination that was pressed.\<close>

definition pressed :: "string \<Rightarrow> string \<Rightarrow> bool" where
  "pressed hotkey event = (hotkey = event)"

section \<open>Registry facts\<close>

lemma in_TEXT_ALIGN_TYPES:
  "format \<in> set TEXT_ALIGN_TYPES \<longleftrightarrow>
     format = ''left'' \<or> format = ''center'' \<or> format = ''right'' \<or> format = ''justify''"
  by (auto simp: TEXT_ALIGN_TYPES_def)

lemma formatDirectory_align:
  "format \<in> set TEXT_ALIGN_TYPES \<Longrightarrow> map_of formatDirectory format = Some format"
  by (auto simp: in_TEXT_ALIGN_TYPES formatDirectory_def)

lemma LIST_not_ALIGN: "format \<in> set LIST_TYPES \<Longrightarrow> format \<notin> set TEXT_ALIGN_TYPES"
  by (auto simp: LIST_TYPES_def TEXT_ALIGN_TYPES_def)

lemma left_align: "''left'' \<in> set TEXT_ALIGN_TYPES"
  by (simp add: TEXT_ALIGN_TYPES_def)

lemma center_align: "''center'' \<in> set TEXT_ALIGN_TYPES"
  by (simp add: TEXT_ALIGN_TYPES_def)


lemma hotkey_keys:
  "''mod+b'' \<in> set (map fst HOTKEYS)" "''mod+i'' \<in> set (map fst HOTKEYS)"
  "''mod+u'' \<in> set (map fst HOTKEYS)" "''mod+`'' \<in> set (map fst HOTKEYS)"
  by (simp_all add: HOTKEYS_def)

section \<open>The reference engine meets the contracts\<close>

lemma block_engine_marks: "marks_contract block_engine"
  by (simp add: marks_contract_def block_engine_def be_addMark_def be_removeMark_def)

lemma unwrap_lowest_none: "(\<forall>n. \<not> m n) \<Longrightarrow> unwrap_lowest m cs b = cs"
  by (cases cs) (simp_all add: list_ex_iff)

lemma block_engine_unwrap: "unwrap_contract block_engine"
  by (simp add: unwrap_contract_def block_engine_def be_unwrapNodes_def unwrap_lowest_none)

lemma block_engine_setNodes: "setNodes_contract block_engine"
  unfolding setNodes_contract_def
proof (intro conjI allI impI)
  fix e p
  show "Transforms_setNodes block_engine (Transforms_setNodes block_engine e p) p
          = Transforms_setNodes block_engine e p"
    by (simp add: block_engine_def be_setNodes_def split: newProperties.splits)
next
  fix e p sel
  assume "selection block_engine e = Some sel"
  then show "selection block_engine (Transforms_setNodes block_engine e p) = Some sel"
    by (simp add: block_engine_def be_setNodes_def split: newProperties.splits)
next
  fix e p sel
  assume "selection block_engine e = Some sel"
  then show "list_ex (has_props p)
               (Node_nodes block_engine (Transforms_setNodes block_engine e p)
                  (Editor_unhangRange block_engine (Transforms_setNodes block_engine e p) sel))"
    by (cases p)
       (auto simp: block_engine_def be_setNodes_def be_nodes_def be_block_def list_ex_iff
          Editor_isEditor_def SlateElement_isElement_def)
qed

lemma pressed_contract: "hotkey_contract pressed"
  by (simp add: hotkey_contract_def pressed_def)

lemma initial_editor_selection: "selection block_engine initial_editor \<noteq> None"
  by (simp add: block_engine_def initial_editor_def)

section \<open>Properties of the presentation mapping\<close>

lemma Element_renders:
  assumes "align (element props) \<noteq> None \<or> \<not> element_frozen props"
  shows "Element props =
     Inr (\<lparr>container_tag =
             (case map_of [(''block-quote'', Blockquote), (''bulleted-list'', Ul),
                           (''heading-one'', H1), (''heading-two'', H2), (''list-item'', Li),
                           (''numbered-list'', Ol)]
                     (etype (element props)) of
                None \<Rightarrow> P | Some t \<Rightarrow> t),
            textAlign = Some (case align (element props) of None \<Rightarrow> ''left'' | Some a \<Rightarrow> a),
            container_attributes = attributes props,
            container_children = children_prop props\<rparr>,
          SlateElement (etype (element props))
            (Some (case align (element props) of None \<Rightarrow> ''left'' | Some a \<Rightarrow> a))
            (slate_element.children (element props)))"
  using assms by (cases "element props") (auto simp: Element_def Let_def)

lemma Element_throws:
  assumes "align (element props) = None" "element_frozen props"
  shows "Element props = Inl TypeError"
  using assms by (simp add: Element_def Let_def)

text \<open>
  C5. Rendering a block should leave the block itself unchanged. The renderer assigns
  to the block it is handed instead: for the unfrozen initial paragraph, which has no
  align, the block comes back with \<open>align = "left"\<close> written into it, and for a frozen
  numbered-list container without align the assignment throws \<open>TypeError\<close> and nothing
  is rendered.
\<close>

theorem Element_assigns_to_block:
  "Element \<lparr>element = SlateElement ''paragraph'' None
                          [Text_node \<lparr>run_text = [], text_marks = Map.empty\<rparr>],
            element_frozen = False, attributes = (), children_prop = ()\<rparr>
     = Inr (\<lparr>container_tag = P, textAlign = Some ''left'',
              container_attributes = (), container_children = ()\<rparr>,
            SlateElement ''paragraph'' (Some ''left'')
              [Text_node \<lparr>run_text = [], text_marks = Map.empty\<rparr>])
   \<and> Element \<lparr>element = SlateElement ''numbered-list'' None [],
              element_frozen = True, attributes = (), children_prop = ()\<rparr>
       = Inl TypeError"
  by (simp add: Element_def Let_def)

text \<open>
  C9. Every block, whatever its type, should render, and a block with no align should
  render with alignment \<open>left\<close>. The frozen bulleted-list container that \<open>toggleBlock\<close>
  creates around a list item has no align, and rendering it throws \<open>TypeError\<close> instead
  of producing a container aligned \<open>left\<close>.
\<close>

theorem Element_frozen_container:
  "Element \<lparr>element = SlateElement ''bulleted-list'' None
                          [Element_node (SlateElement ''list-item'' (Some ''left'')
                             [Text_node \<lparr>run_text = [], text_marks = Map.empty\<rparr>])],
            element_frozen = True, attributes = (), children_prop = ()\<rparr>
     = Inl TypeError"
  by (simp add: Element_def Let_def)

text \<open>
  C6. For every text run the leaf renderer nests the emphasis wrappers in one fixed
  order: bold innermost, then the code element inside its background wrapper, then
  italic, then underline outermost, all inside the span. A run with bold and code set
  to true renders as the code-background wrapper containing the code element containing
  the bold wrapper containing the text.
\<close>

theorem Leaf_wrapper_order:
  "wrappers (Leaf props) =
     [''span'']
     @ (if truthy (text_marks (leaf props) ''underline'') then [''u''] else [])
     @ (if truthy (text_marks (leaf props) ''italic'') then [''em''] else [])
     @ (if truthy (text_marks (leaf props) ''code'') then [''CodeBackground'', ''code''] else [])
     @ (if truthy (text_marks (leaf props) ''bold'') then [''strong''] else [])
   \<and> Leaf \<lparr>leaf = \<lparr>run_text = t, text_marks = [''bold'' \<mapsto> True, ''code'' \<mapsto> True]\<rparr>,
           leaf_attributes = a, leaf_children = c\<rparr>
       = Span a (CodeBackground (Code (Strong (Children c))))"
  by (simp add: Leaf_def truthy_def)

section \<open>Properties of the active-state queries\<close>

lemma isBlockActive_iff:
  "isBlockActive eng editor format blockType =
    (case selection eng editor of
       None \<Rightarrow> False
     | Some sel \<Rightarrow>
         (\<exists>n \<in> set (Node_nodes eng editor (Editor_unhangRange eng editor sel)).
             \<not> Editor_isEditor n \<and> SlateElement_isElement n \<and> node_prop n blockType = Some format))"
proof (cases "selection eng editor")
  case None
  then show ?thesis by (simp add: isBlockActive_def)
next
  case (Some sel)
  have "(case filter Q xs of [] \<Rightarrow> False | m # _ \<Rightarrow> True) = (\<exists>n \<in> set xs. Q n)"
    for Q :: "node \<Rightarrow> bool" and xs
    by (induction xs) auto
  with Some show ?thesis by (simp add: isBlockActive_def Editor_nodes_def)
qed

text \<open>
  C7. \<open>isBlockActive\<close> is false whenever the editor has no selection. With a selection
  it is true exactly when some block element among the nodes of the unhung selection
  range has its \<open>type\<close> (respectively its \<open>align\<close>) equal to the format. It is a total
  function: it has a boolean value for every editor, format and attribute.
\<close>

theorem isBlockActive_spec:
  "(selection eng editor = None \<longrightarrow> \<not> isBlockActive eng editor format blockType)
   \<and> (\<forall>sel. selection eng editor = Some sel \<longrightarrow>
         isBlockActive eng editor format ''type''
           = (\<exists>el. Element_node el \<in> set (Node_nodes eng editor (Editor_unhangRange eng editor sel))
                   \<and> etype el = format)
       \<and> isBlockActive eng editor format ''align''
           = (\<exists>el. Element_node el \<in> set (Node_nodes eng editor (Editor_unhangRange eng editor sel))
                   \<and> align el = Some format))"
proof (intro conjI impI allI)
  assume "selection eng editor = None"
  then show "\<not> isBlockActive eng editor format blockType"
    by (simp add: isBlockActive_def)
next
  fix sel assume s: "selection eng editor = Some sel"
  let ?ns = "Node_nodes eng editor (Editor_unhangRange eng editor sel)"
  have m: "(\<exists>n \<in> set ?ns. \<not> Editor_isEditor n \<and> SlateElement_isElement n
                \<and> node_prop n key = Some format)
           = (\<exists>el. Element_node el \<in> set ?ns \<and> node_prop (Element_node el) key = Some format)"
    for key
  proof
    assume "\<exists>n \<in> set ?ns. \<not> Editor_isEditor n \<and> SlateElement_isElement n
                \<and> node_prop n key = Some format"
    then obtain n where n: "n \<in> set ?ns" "SlateElement_isElement n"
      "node_prop n key = Some format" by blast
    from n(2) obtain el where "n = Element_node el"
      by (cases n) (simp_all add: SlateElement_isElement_def)
    with n show "\<exists>el. Element_node el \<in> set ?ns \<and> node_prop (Element_node el) key = Some format"
      by blast
  next
    assume "\<exists>el. Element_node el \<in> set ?ns \<and> node_prop (Element_node el) key = Some format"
    then obtain el where "Element_node el \<in> set ?ns"
      "node_prop (Element_node el) key = Some format" by blast
    moreover have "\<not> Editor_isEditor (Element_node el)" "SlateElement_isElement (Element_node el)"
      by (simp_all add: Editor_isEditor_def SlateElement_isElement_def)
    ultimately show "\<exists>n \<in> set ?ns. \<not> Editor_isEditor n \<and> SlateElement_isElement n
                \<and> node_prop n key = Some format" by blast
  qed
  show "isBlockActive eng editor format ''type''
          = (\<exists>el. Element_node el \<in> set ?ns \<and> etype el = format)"
    unfolding isBlockActive_iff s option.case m by simp
  show "isBlockActive eng editor format ''align''
          = (\<exists>el. Element_node el \<in> set ?ns \<and> align el = Some format)"
    unfolding isBlockActive_iff s option.case m by simp
qed

theorem isBlockActive_spec_witness:
  "selection block_engine unselected = None
   \<and> \<not> isBlockActive block_engine unselected ''paragraph'' ''type''
   \<and> selection block_engine centered = Some caret
   \<and> isBlockActive block_engine centered ''paragraph'' ''type''
   \<and> isBlockActive block_engine centered ''center'' ''align''
   \<and> \<not> isBlockActive block_engine centered ''left'' ''align''"
proof -
  note u = isBlockActive_spec [of block_engine unselected "''paragraph''" "''type''"]
  have su: "selection block_engine unselected = None"
    by (simp add: block_engine_def unselected_def)
  have sc: "selection block_engine centered = Some caret"
    by (simp add: block_engine_def centered_def initial_editor_def)
  have ns: "Node_nodes block_engine centered (Editor_unhangRange block_engine centered caret)
        = [Editor_node [be_block centered], be_block centered, be_run centered]"
    by (simp add: block_engine_def be_nodes_def centered_def initial_editor_def)
  have bl: "be_block centered = Element_node (SlateElement ''paragraph'' (Some ''center'') [be_run centered])"
    by (simp add: be_block_def centered_def initial_editor_def)
  have r: "be_run centered = Text_node \<lparr>run_text = [], text_marks = Map.empty\<rparr>"
    by (simp add: be_run_def centered_def initial_editor_def)
  have a: "\<not> isBlockActive block_engine unselected ''paragraph'' ''type''"
    using u su by blast
  have b: "isBlockActive block_engine centered ''paragraph'' ''type''"
    using isBlockActive_spec [of block_engine centered "''paragraph''" "''type''"] sc
    by (simp add: ns bl r)
  have c: "isBlockActive block_engine centered ''center'' ''align''"
    using isBlockActive_spec [of block_engine centered "''center''" "''type''"] sc
    by (simp add: ns bl r)
  have d: "\<not> isBlockActive block_engine centered ''left'' ''align''"
    using isBlockActive_spec [of block_engine centered "''left''" "''type''"] sc
    by (simp add: ns bl r)
  show ?thesis by (intro conjI su a sc b c d)
qed

section \<open>Properties of the mark toggle\<close>

lemma marks_toggleMark:
  assumes "marks_contract eng"
  shows "Editor_marks eng (toggleMark eng e f) =
           map_option (\<lambda>m. if m f = Some True then m(f := None) else m(f \<mapsto> True))
             (Editor_marks eng e)"
  using assms
  by (cases "Editor_marks eng e")
     (simp_all add: toggleMark_def isMarkActive_def marks_contract_def)

text \<open>
  C1. Over an engine whose mark primitives store and delete as \<open>marks_contract\<close> says,
  applying \<open>toggleMark\<close> twice with the same format returns \<open>isMarkActive\<close> to its
  original value for every editor and format, and returns the mark's presence and value
  to the original whenever the mark was absent or true. A mark that was present with
  the value false counts as inactive, is set to true by the first call and removed by
  the second, and so ends up absent.
\<close>

theorem toggleMark_twice:
  assumes "marks_contract eng"
  shows "isMarkActive eng (toggleMark eng (toggleMark eng e f) f) f = isMarkActive eng e f
       \<and> markState eng (toggleMark eng (toggleMark eng e f) f) f
           = (if markState eng e f = Some False then None else markState eng e f)"
proof (cases "Editor_marks eng e")
  case None
  then show ?thesis
    using marks_toggleMark [of eng] assms
    by (simp add: isMarkActive_def markState_def)
next
  case (Some m)
  then show ?thesis
    using marks_toggleMark [of eng] assms
    by (cases "m f") (auto simp: isMarkActive_def markState_def)
qed

theorem toggleMark_twice_witness:
  "marks_contract block_engine
   \<and> isMarkActive block_engine
       (toggleMark block_engine (toggleMark block_engine bold_run ''bold'') ''bold'') ''bold''
   \<and> markState block_engine
       (toggleMark block_engine (toggleMark block_engine bold_run ''bold'') ''bold'') ''bold''
     = Some True"
proof -
  have i: "isMarkActive block_engine bold_run ''bold''"
    by (simp add: isMarkActive_def block_engine_def bold_run_def initial_editor_def)
  have s: "markState block_engine bold_run ''bold'' = Some True"
    by (simp add: markState_def block_engine_def bold_run_def initial_editor_def)
  have "isMarkActive block_engine
          (toggleMark block_engine (toggleMark block_engine bold_run ''bold'') ''bold'') ''bold''
          = isMarkActive block_engine bold_run ''bold''
      \<and> markState block_engine
          (toggleMark block_engine (toggleMark block_engine bold_run ''bold'') ''bold'') ''bold''
          = (if markState block_engine bold_run ''bold'' = Some False then None
             else markState block_engine bold_run ''bold'')"
    using block_engine_marks by (rule toggleMark_twice)
  with i s block_engine_marks show ?thesis by simp
qed

text \<open>
  A run whose \<open>bold\<close> mark is present with the value false: after two toggles the mark
  is absent, so its presence is not what it was.
\<close>

theorem toggleMark_twice_counterexample:
  "markState block_engine
     (toggleMark block_engine (toggleMark block_engine bold_false_run ''bold'') ''bold'') ''bold''
   \<noteq> markState block_engine bold_false_run ''bold''"
  by (simp add: markState_def toggleMark_def isMarkActive_def block_engine_def
        bold_false_run_def initial_editor_def be_addMark_def be_removeMark_def)

section \<open>Properties of the key handler\<close>

lemma hotkey_only:
  assumes "hotkey_contract isHotkey" "isHotkey h2 event" "h2 \<in> set (map fst HOTKEYS)"
      and "h1 \<in> set (map fst HOTKEYS)" "h1 \<noteq> h2"
  shows "\<not> isHotkey h1 event"
proof
  assume "isHotkey h1 event"
  with assms(1-4) have "h1 = h2"
    unfolding hotkey_contract_def by blast
  with assms(5) show False by simp
qed

lemma onKeyDown_underline:
  assumes "hotkey_contract isHotkey" "isHotkey ''mod+u'' event"
  shows "onKeyDown eng isHotkey editor event = (toggleMark eng editor ''underline'', True)"
proof -
  have r: "\<not> isHotkey h event" if "h \<in> set (map fst HOTKEYS)" "h \<noteq> ''mod+u''" for h
    using assms(1) assms(2) hotkey_keys(3) that by (rule hotkey_only)
  have "\<not> isHotkey ''mod+b'' event" by (rule r) (simp_all add: HOTKEYS_def)
  moreover have "\<not> isHotkey ''mod+i'' event" by (rule r) (simp_all add: HOTKEYS_def)
  moreover have "\<not> isHotkey ''mod+`'' event" by (rule r) (simp_all add: HOTKEYS_def)
  ultimately show ?thesis
    using assms(2) by (simp add: onKeyDown_def HOTKEYS_def)
qed

text \<open>
  C8. For every key event that matches the registered underline shortcut \<open>mod+u\<close>, over
  an engine that meets \<open>marks_contract\<close> and a hotkey predicate that meets
  \<open>hotkey_contract\<close>, on an editor with a selection (so that \<open>Editor.marks\<close> is not
  null): the handler flips whether underline is active, leaves the state of every other
  mark (bold, italic and code among them) as it was, and prevents the default action.
\<close>

theorem underline_hotkey:
  assumes "marks_contract eng" "hotkey_contract isHotkey"
      and "isHotkey ''mod+u'' event" "Editor_marks eng editor \<noteq> None"
  shows "isMarkActive eng (fst (onKeyDown eng isHotkey editor event)) ''underline''
           = (\<not> isMarkActive eng editor ''underline'')
       \<and> (\<forall>k. k \<noteq> ''underline'' \<longrightarrow>
             markState eng (fst (onKeyDown eng isHotkey editor event)) k = markState eng editor k)
       \<and> snd (onKeyDown eng isHotkey editor event)"
proof -
  from assms(4) obtain m where m: "Editor_marks eng editor = Some m" by auto
  show ?thesis
    using onKeyDown_underline [of isHotkey event eng editor] assms(2,3)
          marks_toggleMark [of eng editor "''underline''"] assms(1) m
    by (simp add: isMarkActive_def markState_def)
qed

theorem underline_hotkey_witness:
  "marks_contract block_engine \<and> hotkey_contract pressed \<and> pressed ''mod+u'' ''mod+u''
   \<and> Editor_marks block_engine bold_run \<noteq> None
   \<and> isMarkActive block_engine (fst (onKeyDown block_engine pressed bold_run ''mod+u'')) ''underline''
   \<and> markState block_engine (fst (onKeyDown block_engine pressed bold_run ''mod+u'')) ''bold''
       = Some True
   \<and> markState block_engine (fst (onKeyDown block_engine pressed bold_run ''mod+u'')) ''code''
       = None"
proof -
  let ?e' = "fst (onKeyDown block_engine pressed bold_run ''mod+u'')"
  have p: "pressed ''mod+u'' ''mod+u''" by (simp add: pressed_def)
  have k: "Editor_marks block_engine bold_run \<noteq> None"
    by (simp add: block_engine_def bold_run_def initial_editor_def)
  have i: "\<not> isMarkActive block_engine bold_run ''underline''"
    by (simp add: isMarkActive_def block_engine_def bold_run_def initial_editor_def)
  have b: "markState block_engine bold_run ''bold'' = Some True"
    by (simp add: markState_def block_engine_def bold_run_def initial_editor_def)
  have c: "markState block_engine bold_run ''code'' = None"
    by (simp add: markState_def block_engine_def bold_run_def initial_editor_def)
  have u: "isMarkActive block_engine ?e' ''underline''
             = (\<not> isMarkActive block_engine bold_run ''underline'')
       \<and> (\<forall>k. k \<noteq> ''underline'' \<longrightarrow>
             markState block_engine ?e' k = markState block_engine bold_run k)
       \<and> snd (onKeyDown block_engine pressed bold_run ''mod+u'')"
    using block_engine_marks pressed_contract p k by (rule underline_hotkey)
  from u i have a: "isMarkActive block_engine ?e' ''underline''"
    by blast
  from u have r: "k \<noteq> ''underline'' \<Longrightarrow>
      markState block_engine ?e' k = markState block_engine bold_run k" for k
    by blast
  have b': "markState block_engine ?e' ''bold'' = Some True"
    using r [of "''bold''"] b by simp
  have c': "markState block_engine ?e' ''code'' = None"
    using r [of "''code''"] c by simp
  show ?thesis
    by (intro conjI block_engine_marks pressed_contract p k a b' c')
qed

section \<open>Properties of the block toggle\<close>

lemma unwrap_match_align: "format \<in> set TEXT_ALIGN_TYPES \<Longrightarrow> \<not> unwrap_match format n"
  by (simp add: unwrap_match_def)


lemma unwrap_align_noop:
  assumes "unwrap_contract eng" "format \<in> set TEXT_ALIGN_TYPES"
  shows "Transforms_unwrapNodes eng e (unwrap_match format) True = e"
  using assms unwrap_match_align unfolding unwrap_contract_def by blast

lemma isBlockActive_setNodes:
  assumes "setNodes_contract eng" "selection eng e \<noteq> None"
  shows "isBlockActive eng (Transforms_setNodes eng e (Props_align (Some a))) a ''align''"
proof -
  from assms(2) obtain sel where sel: "selection eng e = Some sel" by auto
  let ?e = "Transforms_setNodes eng e (Props_align (Some a))"
  from assms(1) sel have s: "selection eng ?e = Some sel"
    and n: "list_ex (has_props (Props_align (Some a)))
              (Node_nodes eng ?e (Editor_unhangRange eng ?e sel))"
    unfolding setNodes_contract_def by blast+
  from n obtain x where "x \<in> set (Node_nodes eng ?e (Editor_unhangRange eng ?e sel))"
    and "has_props (Props_align (Some a)) x"
    unfolding list_ex_iff by blast
  then show ?thesis
    unfolding isBlockActive_iff s by auto
qed

lemma align_calls:
  assumes "a \<in> set TEXT_ALIGN_TYPES"
  shows "toggleBlock eng editor a =
           Transforms_setNodes eng (Transforms_unwrapNodes eng editor (unwrap_match a) True)
             (Props_align (Some (if isBlockActive eng editor a ''align'' then ''left'' else a)))"
proof -
  from assms have "a \<notin> set LIST_TYPES" using LIST_not_ALIGN by blast
  with assms show ?thesis
    by (simp add: toggleBlock_def Let_def formatDirectory_align)
qed

lemma left_calls:
  "toggleBlock eng editor ''left'' =
     Transforms_setNodes eng (Transforms_unwrapNodes eng editor (unwrap_match ''left'') True)
       (Props_align (Some ''left''))"
  using align_calls [of "''left''" eng editor] left_align
  by (simp only: if_cancel)


lemma initial_editor_not_list:
  "\<not> isBlockActive block_engine initial_editor ''bulleted-list'' ''type''"
  by (simp add: isBlockActive_iff block_engine_def initial_editor_def be_nodes_def be_block_def
        be_run_def Editor_isEditor_def SlateElement_isElement_def)

lemma initial_editor_not_center:
  "\<not> isBlockActive block_engine initial_editor ''center'' ''align''"
  by (simp add: isBlockActive_iff block_engine_def initial_editor_def be_nodes_def be_block_def
        be_run_def Editor_isEditor_def SlateElement_isElement_def)

lemma centered_center: "isBlockActive block_engine centered ''center'' ''align''"
  by (simp add: isBlockActive_iff block_engine_def initial_editor_def be_nodes_def be_block_def
        be_run_def Editor_isEditor_def SlateElement_isElement_def centered_def)


text \<open>
  C2. For every list format (numbered-list or bulleted-list) that is not active at the
  selection, \<open>toggleBlock\<close> asks the engine, after the unwrap step, to set the type of
  the selected blocks to \<open>list-item\<close> and then to wrap the selection once, in a new
  container block of that list format with no children of its own. On the reference
  engine, the initial paragraph becomes a list item inside exactly one bulleted list.
\<close>

theorem toggleBlock_list_on:
  assumes "format \<in> set LIST_TYPES" "\<not> isBlockActive eng editor format ''type''"
  shows "toggleBlock eng editor format =
           Transforms_wrapNodes eng
             (Transforms_setNodes eng
                (Transforms_unwrapNodes eng editor (unwrap_match format) True)
                (Props_type ''list-item''))
             (SlateElement format None [])"
proof -
  from assms(1) have "format \<notin> set TEXT_ALIGN_TYPES" by (rule LIST_not_ALIGN)
  with assms show ?thesis
    by (simp add: toggleBlock_def Let_def)
qed

theorem toggleBlock_list_on_witness:
  "''bulleted-list'' \<in> set LIST_TYPES
   \<and> \<not> isBlockActive block_engine initial_editor ''bulleted-list'' ''type''
   \<and> toggleBlock block_engine initial_editor ''bulleted-list'' = listed"
proof -
  have l: "''bulleted-list'' \<in> set LIST_TYPES" by (simp add: LIST_TYPES_def)
  have "toggleBlock block_engine initial_editor ''bulleted-list'' =
           Transforms_wrapNodes block_engine
             (Transforms_setNodes block_engine
                (Transforms_unwrapNodes block_engine initial_editor
                   (unwrap_match ''bulleted-list'') True)
                (Props_type ''list-item''))
             (SlateElement ''bulleted-list'' None [])"
    using l initial_editor_not_list by (rule toggleBlock_list_on)
  then have "toggleBlock block_engine initial_editor ''bulleted-list'' = listed"
    by (simp add: block_engine_def be_wrapNodes_def be_setNodes_def be_unwrapNodes_def
          initial_editor_def listed_def)
  with l initial_editor_not_list show ?thesis by simp
qed

text \<open>
  C3. For every alignment format \<open>a\<close> (left, center, right, justify) the registry's
  canonical value for \<open>a\<close> is \<open>a\<close> itself. When \<open>a\<close> is not active, \<open>toggleBlock\<close> asks the
  engine to set the align of the selected blocks to that canonical value; over an engine
  that meets \<open>unwrap_contract\<close> and \<open>setNodes_contract\<close>, on an editor with a selection,
  \<open>isBlockActive\<close> for \<open>a\<close> and \<open>align\<close> is true afterwards. When \<open>a\<close> is active,
  \<open>toggleBlock\<close> asks the engine to set align to \<open>left\<close>.
\<close>

theorem toggleBlock_align:
  assumes "a \<in> set TEXT_ALIGN_TYPES"
  shows "map_of formatDirectory a = Some a
       \<and> (\<not> isBlockActive eng editor a ''align'' \<longrightarrow>
            toggleBlock eng editor a =
              Transforms_setNodes eng (Transforms_unwrapNodes eng editor (unwrap_match a) True)
                (Props_align (map_of formatDirectory a))
            \<and> (unwrap_contract eng \<and> setNodes_contract eng \<and> selection eng editor \<noteq> None \<longrightarrow>
                 isBlockActive eng (toggleBlock eng editor a) a ''align''))
       \<and> (isBlockActive eng editor a ''align'' \<longrightarrow>
            toggleBlock eng editor a =
              Transforms_setNodes eng (Transforms_unwrapNodes eng editor (unwrap_match a) True)
                (Props_align (Some ''left'')))"
proof (intro conjI impI)
  show "map_of formatDirectory a = Some a" using assms by (rule formatDirectory_align)
next
  assume "\<not> isBlockActive eng editor a ''align''"
  then show "toggleBlock eng editor a =
      Transforms_setNodes eng (Transforms_unwrapNodes eng editor (unwrap_match a) True)
        (Props_align (map_of formatDirectory a))"
    by (simp add: align_calls [of a] formatDirectory_align [of a] assms)
next
  assume n: "\<not> isBlockActive eng editor a ''align''"
    and c: "unwrap_contract eng \<and> setNodes_contract eng \<and> selection eng editor \<noteq> None"
  from c have c1: "unwrap_contract eng" and c2: "setNodes_contract eng"
    and c3: "selection eng editor \<noteq> None" by simp_all
  from c1 assms have u: "Transforms_unwrapNodes eng editor (unwrap_match a) True = editor"
    by (rule unwrap_align_noop)
  have "toggleBlock eng editor a = Transforms_setNodes eng editor (Props_align (Some a))"
    using n u by (simp add: align_calls [of a] assms)
  moreover have "isBlockActive eng (Transforms_setNodes eng editor (Props_align (Some a))) a ''align''"
    using c2 c3 by (rule isBlockActive_setNodes)
  ultimately show "isBlockActive eng (toggleBlock eng editor a) a ''align''" by simp
next
  assume "isBlockActive eng editor a ''align''"
  then show "toggleBlock eng editor a =
      Transforms_setNodes eng (Transforms_unwrapNodes eng editor (unwrap_match a) True)
        (Props_align (Some ''left''))"
    by (simp add: align_calls [of a] assms)
qed

theorem toggleBlock_align_witness:
  "''center'' \<in> set TEXT_ALIGN_TYPES
   \<and> \<not> isBlockActive block_engine initial_editor ''center'' ''align''
   \<and> unwrap_contract block_engine \<and> setNodes_contract block_engine
   \<and> selection block_engine initial_editor \<noteq> None
   \<and> toggleBlock block_engine initial_editor ''center'' = centered
   \<and> isBlockActive block_engine (toggleBlock block_engine initial_editor ''center'')
       ''center'' ''align''
   \<and> isBlockActive block_engine centered ''center'' ''align''
   \<and> toggleBlock block_engine centered ''center'' = lefted"
proof -
  note t1 = toggleBlock_align [of "''center''" block_engine initial_editor]
  note t2 = toggleBlock_align [of "''center''" block_engine centered]
  have a: "toggleBlock block_engine initial_editor ''center'' =
      Transforms_setNodes block_engine
        (Transforms_unwrapNodes block_engine initial_editor (unwrap_match ''center'') True)
        (Props_align (map_of formatDirectory ''center''))"
    using t1 center_align initial_editor_not_center by blast
  have b: "isBlockActive block_engine (toggleBlock block_engine initial_editor ''center'')
             ''center'' ''align''"
    using t1 center_align initial_editor_not_center block_engine_unwrap block_engine_setNodes
      initial_editor_selection by blast
  have c: "toggleBlock block_engine centered ''center'' =
      Transforms_setNodes block_engine
        (Transforms_unwrapNodes block_engine centered (unwrap_match ''center'') True)
        (Props_align (Some ''left''))"
    using t2 center_align centered_center by blast
  have a': "toggleBlock block_engine initial_editor ''center'' = centered"
    unfolding a
    by (simp add: block_engine_def be_setNodes_def be_unwrapNodes_def initial_editor_def
          centered_def formatDirectory_def)
  have c': "toggleBlock block_engine centered ''center'' = lefted"
    unfolding c
    by (simp add: block_engine_def be_setNodes_def be_unwrapNodes_def initial_editor_def
          centered_def lefted_def)
  show ?thesis
    by (intro conjI center_align initial_editor_not_center block_engine_unwrap
          block_engine_setNodes initial_editor_selection a' b centered_center c')
qed




text \<open>
  C10. The registry's canonical value for \<open>left\<close> is \<open>left\<close>, the same as the turn-off
  value, so \<open>toggleBlock\<close> with format \<open>left\<close> asks the engine to set align to \<open>left\<close>
  whether or not left alignment was active. Over an engine that meets \<open>unwrap_contract\<close>
  and \<open>setNodes_contract\<close>, applying it a second time changes nothing, and on an editor
  with a selection left alignment is active afterwards: it is never switched off.
\<close>

theorem toggleBlock_left:
  "map_of formatDirectory ''left'' = Some ''left''
   \<and> toggleBlock eng editor ''left'' =
       Transforms_setNodes eng (Transforms_unwrapNodes eng editor (unwrap_match ''left'') True)
         (Props_align (Some ''left''))
   \<and> (unwrap_contract eng \<and> setNodes_contract eng \<longrightarrow>
        toggleBlock eng editor ''left'' = Transforms_setNodes eng editor (Props_align (Some ''left''))
        \<and> toggleBlock eng (toggleBlock eng editor ''left'') ''left'' = toggleBlock eng editor ''left''
        \<and> (selection eng editor \<noteq> None \<longrightarrow>
             isBlockActive eng (toggleBlock eng editor ''left'') ''left'' ''align''))"
proof (intro conjI impI)
  show "map_of formatDirectory ''left'' = Some ''left''"
    using left_align by (rule formatDirectory_align)
  show "toggleBlock eng editor ''left'' =
       Transforms_setNodes eng (Transforms_unwrapNodes eng editor (unwrap_match ''left'') True)
         (Props_align (Some ''left''))"
    by (rule left_calls)
next
  assume c: "unwrap_contract eng \<and> setNodes_contract eng"
  then have c1: "unwrap_contract eng" and c2: "setNodes_contract eng" by simp_all
  have u: "Transforms_unwrapNodes eng e (unwrap_match ''left'') True = e" for e
    using c1 left_align by (rule unwrap_align_noop)
  show t: "toggleBlock eng editor ''left'' = Transforms_setNodes eng editor (Props_align (Some ''left''))"
    by (simp only: left_calls u)
  have i: "Transforms_setNodes eng (Transforms_setNodes eng e p) p = Transforms_setNodes eng e p"
    for e p using c2 unfolding setNodes_contract_def by blast
  show "toggleBlock eng (toggleBlock eng editor ''left'') ''left'' = toggleBlock eng editor ''left''"
    by (simp only: left_calls u i)
  assume "selection eng editor \<noteq> None"
  with c2 have "isBlockActive eng (Transforms_setNodes eng editor (Props_align (Some ''left'')))
                  ''left'' ''align''"
    by (rule isBlockActive_setNodes)
  then show "isBlockActive eng (toggleBlock eng editor ''left'') ''left'' ''align''"
    by (simp only: t)
qed

theorem toggleBlock_left_witness:
  "unwrap_contract block_engine \<and> setNodes_contract block_engine
   \<and> selection block_engine initial_editor \<noteq> None
   \<and> toggleBlock block_engine initial_editor ''left'' = lefted
   \<and> toggleBlock block_engine (toggleBlock block_engine initial_editor ''left'') ''left'' = lefted
   \<and> isBlockActive block_engine (toggleBlock block_engine initial_editor ''left'') ''left'' ''align''"
proof -
  note t = toggleBlock_left [of block_engine initial_editor]
  have c: "unwrap_contract block_engine \<and> setNodes_contract block_engine"
    using block_engine_unwrap block_engine_setNodes by simp
  from t c have a: "toggleBlock block_engine initial_editor ''left''
      = Transforms_setNodes block_engine initial_editor (Props_align (Some ''left''))"
    and b: "toggleBlock block_engine (toggleBlock block_engine initial_editor ''left'') ''left''
      = toggleBlock block_engine initial_editor ''left''"
    and d: "selection block_engine initial_editor \<noteq> None \<longrightarrow>
      isBlockActive block_engine (toggleBlock block_engine initial_editor ''left'') ''left'' ''align''"
    by blast+
  have a': "toggleBlock block_engine initial_editor ''left'' = lefted"
    unfolding a by (simp add: block_engine_def be_setNodes_def initial_editor_def lefted_def)
  have b': "toggleBlock block_engine (toggleBlock block_engine initial_editor ''left'') ''left'' = lefted"
    using b a' by simp
  have d': "isBlockActive block_engine (toggleBlock block_engine initial_editor ''left'') ''left'' ''align''"
    using d initial_editor_selection by blast
  show ?thesis
    by (intro conjI block_engine_unwrap block_engine_setNodes initial_editor_selection a' b' d')
qed

end
